theory Spec2Isabelle
  imports Main "HOL-Library.Word" "HOL-Library.Sublist"
begin

section \<open>The intercepting gRPC proxy of the local test network\<close>

text \<open>
  This theory embeds \<^verbatim>\<open>integration-testing/casperlabs_local_net/grpc_proxy.py\<close>:
  the interceptor classes (\<^verbatim>\<open>Interceptor\<close>, \<^verbatim>\<open>LoggingInterceptor\<close>,
  \<^verbatim>\<open>KademliaInterceptor\<close>, \<^verbatim>\<open>GossipInterceptor\<close>) and the dispatch of
  \<^verbatim>\<open>ProxyServicer\<close>.

  Conventions of the embedding.
  \<^item> A Python \<^verbatim>\<open>bytes\<close> value is a list of 8-bit words, a \<^verbatim>\<open>str\<close> a \<open>string\<close>.
  \<^item> An exception is a value of \<open>error\<close>; a hook that returns a message returns
    \<open>error + message\<close>, with \<open>Inl\<close> for the exception that leaves the hook.
  \<^item> \<^verbatim>\<open>logging.info\<close> appends one line to a log; every hook returns the lines it wrote.
  \<^item> A response stream is the list of the elements the upstream iterator still holds (a
    finite stream that ends normally). A generator is modelled by its complete run: the
    elements it yielded, the elements it left in the upstream iterator, the exception
    that ended it (if any) and the lines it logged.
  \<^item> Functions of other packages (\<^verbatim>\<open>hexify\<close>, \<^verbatim>\<open>blake2b_hash\<close>, lz4, ed25519,
    base64, the protobuf serialisers) are parameters, collected in records.
  \<^item> The generators run under Python 3.7 or later: a \<^verbatim>\<open>StopIteration\<close> that reaches the
    body of a generator leaves it as a \<^verbatim>\<open>RuntimeError\<close> (PEP 479).
\<close>

subsection \<open>Values, errors and effects\<close>

type_synonym bytes = "8 word list"

datatype error =
    LookupError      \<comment> \<open>the node registry does not know the identity\<close>
  | RuntimeError     \<comment> \<open>\<^verbatim>\<open>StopIteration\<close> raised inside a generator body (PEP 479)\<close>
  | LZ4BlockError    \<comment> \<open>\<^verbatim>\<open>lz4.block.decompress\<close> rejects its input\<close>
  | DecodeError      \<comment> \<open>\<^verbatim>\<open>ParseFromString\<close> rejects its input\<close>
  | IndexError       \<comment> \<open>index out of range in a repeated field\<close>
  | BinasciiError    \<comment> \<open>\<^verbatim>\<open>base64.b64decode\<close> rejects the key text\<close>
  | ValueError       \<comment> \<open>\<^verbatim>\<open>ed25519.SigningKey\<close> rejects the decoded seed\<close>
  | AttributeError   \<comment> \<open>the message has no such field\<close>
  | RpcError         \<comment> \<open>the upstream call failed\<close>

record 'r stream_run =
  emitted :: "'r list"
  unconsumed :: "'r list"
  raised :: "error option"
  logged :: "string list"

text \<open>\<^verbatim>\<open>yield from response\<close>, and \<^verbatim>\<open>for r in response: yield r\<close>: every element
  is pulled and yielded, in order.\<close>

definition yield_from :: "'r list \<Rightarrow> string list \<Rightarrow> 'r stream_run" where
  "yield_from response lg =
     \<lparr>emitted = response, unconsumed = [], raised = None, logged = lg\<rparr>"

text \<open>An exception leaves the generator: nothing more is yielded.\<close>

definition abort :: "error \<Rightarrow> 'r list \<Rightarrow> string list \<Rightarrow> 'r stream_run" where
  "abort e rest lg = \<lparr>emitted = [], unconsumed = rest, raised = Some e, logged = lg\<rparr>"

text \<open>The renderings the log lines interpolate: \<^verbatim>\<open>hexify\<close> of a request, of a unary
  response and of a stream element, \<^verbatim>\<open>str\<close> of a stream element and of the response
  iterator object.\<close>

record ('q, 'r, 's) rendering =
  hexify_request :: "'q \<Rightarrow> string"
  hexify_response :: "'r \<Rightarrow> string"
  hexify_item :: "'s \<Rightarrow> string"
  str_item :: "'s \<Rightarrow> string"
  str_stream :: string

text \<open>\<^verbatim>\<open>bytes.hex()\<close>: two lower-case hexadecimal digits per byte.\<close>

definition hex_digit :: "nat \<Rightarrow> char" where
  "hex_digit n = ''0123456789abcdef'' ! (n mod 16)"

fun hex :: "bytes \<Rightarrow> string" where
  "hex [] = []"
| "hex (b # bs) = hex_digit (unat b div 16) # hex_digit (unat b mod 16) # hex bs"

text \<open>\<^verbatim>\<open>str(n)\<close> of a non-negative integer: its decimal digits.\<close>

fun str_nat :: "nat \<Rightarrow> string" where
  "str_nat n =
     (if n < 10 then [''0123456789'' ! n]
      else str_nat (n div 10) @ [''0123456789'' ! (n mod 10)])"

declare str_nat.simps [simp del]

subsection \<open>Interceptor: the identity hooks\<close>

definition Interceptor_pre_request :: "string \<Rightarrow> 'q \<Rightarrow> string list \<times> (error + 'q)" where
  "Interceptor_pre_request name request = ([], Inr request)"

definition Interceptor_post_request ::
  "string \<Rightarrow> 'q \<Rightarrow> 'r \<Rightarrow> string list \<times> (error + 'r)" where
  "Interceptor_post_request name request response = ([], Inr response)"

definition Interceptor_post_request_stream ::
  "string \<Rightarrow> 'q \<Rightarrow> 's list \<Rightarrow> 's stream_run" where
  "Interceptor_post_request_stream name request response = yield_from response []"

subsection \<open>LoggingInterceptor\<close>

definition LoggingInterceptor_pre_request ::
  "('q, 'r, 's) rendering \<Rightarrow> string \<Rightarrow> 'q \<Rightarrow> string list \<times> (error + 'q)" where
  "LoggingInterceptor_pre_request R name request =
     ([''PRE REQUEST: '' @ name @ ''('' @ hexify_request R request @ '')''], Inr request)"

definition LoggingInterceptor_post_request ::
  "('q, 'r, 's) rendering \<Rightarrow> string \<Rightarrow> 'q \<Rightarrow> 'r \<Rightarrow> string list \<times> (error + 'r)" where
  "LoggingInterceptor_post_request R name request response =
     ([''POST REQUEST: '' @ name @ ''('' @ hexify_request R request @ '') => (''
        @ hexify_response R response @ '')''],
      Inr response)"

definition LoggingInterceptor_post_request_stream ::
  "('q, 'r, 's) rendering \<Rightarrow> string \<Rightarrow> 'q \<Rightarrow> 's list \<Rightarrow> 's stream_run" where
  "LoggingInterceptor_post_request_stream R name request response =
     yield_from response
       [''POST REQUEST STREAM: '' @ name @ ''('' @ hexify_request R request @ '') => ''
          @ str_stream R]"

subsection \<open>The node registry\<close>

text \<open>
  The protobuf message \<^verbatim>\<open>Node\<close> of the discovery and gossip protocols (the field
  \<^verbatim>\<open>id\<close> is written \<open>node_id\<close> here), and what an interceptor reads of a node of the
  test network: its proxy-facing host and ports. The ports are port numbers, within the
  range of the \<^verbatim>\<open>uint32\<close> fields they are assigned to.
\<close>

record node =
  node_id :: bytes
  host :: string
  protocol_port :: nat
  discovery_port :: nat

record endpoint =
  proxy_host :: string
  server_proxy_port :: nat
  kademlia_proxy_port :: nat

text \<open>\<^verbatim>\<open>self.node\<close> of an interceptor: the network it belongs to, indexed by the
  hexadecimal node identity, and the base64 text of its private key
  (\<^verbatim>\<open>self.node.config.node_private_key\<close>).\<close>

record docker_node =
  cl_network :: "string \<rightharpoonup> endpoint"
  node_private_key :: string

text \<open>Modelled from the spec: \<^verbatim>\<open>cl_network.lookup_node\<close> is not part of the sources
  at hand. The Node Registry's lookup maps an identity to the node's endpoint and fails
  on an unknown identity, aborting the call.\<close>

definition lookup_node :: "(string \<rightharpoonup> endpoint) \<Rightarrow> string \<Rightarrow> error + endpoint" where
  "lookup_node network ident =
     (case network ident of None \<Rightarrow> Inl LookupError | Some n \<Rightarrow> Inr n)"

text \<open>The three assignments that point a \<^verbatim>\<open>Node\<close> message to a proxy:
  \<^verbatim>\<open>host = node.proxy_host\<close>, \<^verbatim>\<open>protocol_port = node.server_proxy_port\<close>,
  \<^verbatim>\<open>discovery_port = node.kademlia_proxy_port\<close>.\<close>

definition patch_address :: "endpoint \<Rightarrow> node \<Rightarrow> node" where
  "patch_address n r =
     r\<lparr>host := proxy_host n,
       protocol_port := server_proxy_port n,
       discovery_port := kademlia_proxy_port n\<rparr>"

subsection \<open>KademliaInterceptor\<close>

text \<open>Every request of the discovery service (\<^verbatim>\<open>PingRequest\<close>, \<^verbatim>\<open>LookupRequest\<close>)
  has a \<^verbatim>\<open>sender\<close>; its other fields are the extension of the record.\<close>

record sender_request =
  sender :: node

definition KademliaInterceptor_pre_request ::
  "('a sender_request_scheme, 'r, 's) rendering \<Rightarrow> docker_node \<Rightarrow> string
     \<Rightarrow> 'a sender_request_scheme \<Rightarrow> string list \<times> (error + 'a sender_request_scheme)" where
  "KademliaInterceptor_pre_request R self name request =
     (let log1 = [''KADEMLIA PRE REQUEST: <= '' @ name @ ''('' @ hexify_request R request @ '')'']
      in case lookup_node (cl_network self) (hex (node_id (sender request))) of
           Inl e \<Rightarrow> (log1, Inl e)
         | Inr n \<Rightarrow>
             (let request' = request\<lparr>sender := patch_address n (sender request)\<rparr>
              in (log1 @ [''KADEMLIA PRE REQUEST: => '' @ name @ ''(''
                            @ hexify_request R request' @ '')''],
                  Inr request')))"

definition KademliaInterceptor_post_request ::
  "('q, 'r, 's) rendering \<Rightarrow> string \<Rightarrow> 'q \<Rightarrow> 'r \<Rightarrow> string list \<times> (error + 'r)" where
  "KademliaInterceptor_post_request R name request response =
     ([''KADEMLIA POST REQUEST: '' @ name @ ''('' @ hexify_request R request @ '') => (''
        @ hexify_response R response @ '')''],
      Inr response)"

text \<open>The loop \<^verbatim>\<open>for r in response\<close> of \<open>post_request_stream\<close>: each element is
  looked up, patched, logged and yielded before the next one is pulled; a failed lookup
  ends the generator after the elements already yielded.\<close>

fun kademlia_stream_loop ::
  "('q, 'r, node) rendering \<Rightarrow> docker_node \<Rightarrow> string \<Rightarrow> node list \<Rightarrow> node stream_run" where
  "kademlia_stream_loop R self name [] = yield_from [] []"
| "kademlia_stream_loop R self name (r # rs) =
     (case lookup_node (cl_network self) (hex (node_id r)) of
        Inl e \<Rightarrow> abort e rs []
      | Inr n \<Rightarrow>
          (let r' = patch_address n r;
               run = kademlia_stream_loop R self name rs
           in run\<lparr>emitted := r' # emitted run,
                  logged := (''KADEMLIA POST REQUEST STREAM: '' @ name @ '' => '' @ str_item R r')
                              # logged run\<rparr>))"

definition KademliaInterceptor_post_request_stream ::
  "('q, 'r, node) rendering \<Rightarrow> docker_node \<Rightarrow> string \<Rightarrow> 'q \<Rightarrow> node list \<Rightarrow> node stream_run" where
  "KademliaInterceptor_post_request_stream R self name request response =
     (let run = kademlia_stream_loop R self name response
      in run\<lparr>logged := (''KADEMLIA POST REQUEST STREAM: '' @ name @ ''(''
                           @ hexify_request R request @ '') => '' @ str_stream R)
                         # logged run\<rparr>)"

subsection \<open>GossipInterceptor: the address rewrite\<close>

text \<open>A request of the gossip service is a \<^verbatim>\<open>NewBlocksRequest\<close> (a sender and the
  announced block hashes) or a request of another operation, which the interceptor never
  looks into.\<close>

record new_blocks_request = sender_request +
  block_hashes :: "bytes list"

datatype 'o gossip_request =
    NewBlocksRequest new_blocks_request
  | OtherRequest 'o

definition GossipInterceptor_pre_request ::
  "('o gossip_request, 'r, 's) rendering \<Rightarrow> docker_node \<Rightarrow> string \<Rightarrow> 'o gossip_request
     \<Rightarrow> string list \<times> (error + 'o gossip_request)" where
  "GossipInterceptor_pre_request R self name request =
     (let log1 = [''GOSSIP PRE REQUEST: <= '' @ name @ ''('' @ hexify_request R request @ '')'']
      in if name = ''NewBlocks'' then
           (case request of
              OtherRequest x \<Rightarrow> (log1, Inl AttributeError)
            | NewBlocksRequest nb \<Rightarrow>
                (case lookup_node (cl_network self) (hex (node_id (sender nb))) of
                   Inl e \<Rightarrow> (log1, Inl e)
                 | Inr n \<Rightarrow>
                     (let request' =
                            NewBlocksRequest (nb\<lparr>sender := patch_address n (sender nb)\<rparr>)
                      in (log1 @ [''GOSSIP PRE REQUEST: => '' @ name @ ''(''
                                    @ hexify_request R request' @ '')''],
                          Inr request'))))
         else (log1, Inr request))"

definition GossipInterceptor_post_request ::
  "('q, 'r, 's) rendering \<Rightarrow> string \<Rightarrow> 'q \<Rightarrow> 'r \<Rightarrow> string list \<times> (error + 'r)" where
  "GossipInterceptor_post_request R name request response =
     ([''GOSSIP POST REQUEST: '' @ name @ ''('' @ hexify_request R request @ '') => (''
        @ hexify_response R response @ '')''],
      Inr response)"

subsection \<open>GossipInterceptor: the chunked block transfer\<close>

text \<open>
  The messages of the block transfer. A \<^verbatim>\<open>Chunk\<close> is a protobuf \<^verbatim>\<open>oneof\<close>: a header, a
  piece of data, or neither. Reading the member that is not set gives the default value
  (a header of empty and zero fields, the empty bytes); assigning to a member, or to a
  field of the header member, makes it the member that is set.
\<close>

record chunk_header =
  compression_algorithm :: string
  content_length :: nat
  original_content_length :: nat

datatype chunk = HeaderChunk chunk_header | DataChunk bytes | EmptyChunk

definition header_of :: "chunk \<Rightarrow> chunk_header" where
  "header_of c =
     (case c of
        HeaderChunk h \<Rightarrow> h
      | _ \<Rightarrow> \<lparr>compression_algorithm = [], content_length = 0, original_content_length = 0\<rparr>)"

definition data_of :: "chunk \<Rightarrow> bytes" where
  "data_of c = (case c of DataChunk d \<Rightarrow> d | _ \<Rightarrow> [])"

text \<open>An element of a gossip response stream: a \<^verbatim>\<open>Chunk\<close> (what
  \<^verbatim>\<open>GetBlockChunked\<close> streams), or the message of another streaming operation, on which
  the attributes of a chunk do not exist.\<close>

datatype 'o gossip_item = ChunkMsg chunk | OtherMsg 'o

text \<open>
  The consensus \<^verbatim>\<open>Block\<close> as far as the interceptor touches it; \<open>'a\<close> is the type of
  an approval and \<open>'x\<close> stands for the fields of a message that are only carried along.
\<close>

record block_signature =
  sig_algorithm :: string
  sig :: bytes

record ('a, 'x) deploy =
  approvals :: "'a list"
  deploy_rest :: 'x

record ('a, 'x) processed_deploy =
  deploy :: "('a, 'x) deploy"
  processed_rest :: 'x

record ('a, 'x) body =
  deploys :: "('a, 'x) processed_deploy list"

record 'x header =
  body_hash :: bytes
  header_rest :: 'x

record ('a, 'x) block =
  block_hash :: bytes
  header :: "'x header"
  body :: "('a, 'x) body"
  signature :: block_signature

text \<open>
  The library functions of the mutation path. Four of them fail on input they reject
  (\<open>None\<close>): \<^verbatim>\<open>lz4.block.decompress\<close> (with the \<^verbatim>\<open>uncompressed_size\<close> it is given),
  \<^verbatim>\<open>ParseFromString\<close>, \<^verbatim>\<open>base64.b64decode\<close> (on a text that is not base64) and the
  constructor \<^verbatim>\<open>ed25519.SigningKey\<close> (on bytes that are not a seed or a key of the
  length it takes). The others return a value: \<^verbatim>\<open>lz4.block.compress\<close>,
  \<^verbatim>\<open>SerializeToString\<close> of a body, of a header and of a block, \<^verbatim>\<open>blake2b_hash\<close>, and
  \<^verbatim>\<open>sign\<close> of a signing key. The lengths assigned to the header chunk are within the
  range of its \<^verbatim>\<open>uint32\<close> fields.
\<close>

record ('a, 'x) libs =
  lz4_decompress :: "bytes \<Rightarrow> nat \<Rightarrow> bytes option"
  lz4_compress :: "bytes \<Rightarrow> bytes"
  ParseFromString :: "bytes \<Rightarrow> ('a, 'x) block option"
  Body_SerializeToString :: "('a, 'x) body \<Rightarrow> bytes"
  Header_SerializeToString :: "'x header \<Rightarrow> bytes"
  Block_SerializeToString :: "('a, 'x) block \<Rightarrow> bytes"
  blake2b_hash :: "bytes \<Rightarrow> bytes"
  b64decode :: "string \<Rightarrow> bytes option"
  ed25519_SigningKey :: "bytes \<Rightarrow> bytes option"
  ed25519_sign :: "bytes \<Rightarrow> bytes \<Rightarrow> bytes"
  hexify_header :: "chunk_header \<Rightarrow> string"

text \<open>Lines 180 to 189: the approvals of the first deploy are deleted, then
  \<^verbatim>\<open>header.body_hash\<close>, \<^verbatim>\<open>block_hash\<close> and the signature are assigned, in this order.
  The signature's bytes need the configured key: its text is decoded, the signing key is
  constructed from the decoded bytes, and either step can raise.\<close>

definition remove_approvals_and_resign ::
  "('a, 'x) libs \<Rightarrow> docker_node \<Rightarrow> ('a, 'x) block \<Rightarrow> error + ('a, 'x) block" where
  "remove_approvals_and_resign L self block =
     (case deploys (body block) of
        [] \<Rightarrow> Inl IndexError
      | d # ds \<Rightarrow>
          (let block1 = block\<lparr>body := (body block)
                           \<lparr>deploys := d\<lparr>deploy := (deploy d)\<lparr>approvals := []\<rparr>\<rparr> # ds\<rparr>\<rparr>;
               block2 = block1\<lparr>header := (header block1)
                           \<lparr>body_hash := blake2b_hash L (Body_SerializeToString L (body block1))\<rparr>\<rparr>;
               new_hash = blake2b_hash L (Header_SerializeToString L (header block2));
               block3 = block2\<lparr>block_hash := new_hash\<rparr>;
               block4 = block3\<lparr>signature := (signature block3)\<lparr>sig_algorithm := ''ed25519''\<rparr>\<rparr>
           in case b64decode L (node_private_key self) of
                None \<Rightarrow> Inl BinasciiError
              | Some seed \<Rightarrow>
                  (case ed25519_SigningKey L seed of
                     None \<Rightarrow> Inl ValueError
                   | Some signing_key \<Rightarrow>
                       Inr (block4\<lparr>signature := (signature block4)
                                    \<lparr>sig := ed25519_sign L signing_key new_hash\<rparr>\<rparr>))))"

text \<open>Lines 173 to 196: from the two chunks pulled to the two chunks yielded.\<close>

definition mutate_block_chunks ::
  "('a, 'x) libs \<Rightarrow> docker_node \<Rightarrow> chunk \<Rightarrow> chunk \<Rightarrow> error + chunk \<times> chunk" where
  "mutate_block_chunks L self chunk1 chunk2 =
     (case lz4_decompress L (data_of chunk2) (original_content_length (header_of chunk1)) of
        None \<Rightarrow> Inl LZ4BlockError
      | Some uncompressed_block_data \<Rightarrow>
          (case ParseFromString L uncompressed_block_data of
             None \<Rightarrow> Inl DecodeError
           | Some block \<Rightarrow>
               (case remove_approvals_and_resign L self block of
                  Inl e \<Rightarrow> Inl e
                | Inr block' \<Rightarrow>
                    (let new_data = Block_SerializeToString L block';
                         compressed_new_data = lz4_compress L new_data;
                         header1 = (header_of chunk1)\<lparr>original_content_length := length new_data\<rparr>;
                         header2 = header1\<lparr>content_length := length compressed_new_data\<rparr>
                     in Inr (HeaderChunk header2, DataChunk compressed_new_data)))))"

definition GossipInterceptor_post_request_stream ::
  "('q, 'r, 'o gossip_item) rendering \<Rightarrow> ('a, 'x) libs \<Rightarrow> docker_node \<Rightarrow> string \<Rightarrow> 'q
     \<Rightarrow> 'o gossip_item list \<Rightarrow> 'o gossip_item stream_run" where
  "GossipInterceptor_post_request_stream R L self name request response =
     (let log0 = [''GOSSIP POST REQUEST STREAM: '' @ name @ ''('' @ hexify_request R request @ '')'']
      in if name = ''GetBlockChunked'' then
           (case response of
              [] \<Rightarrow> abort RuntimeError [] log0
            | OtherMsg x # rest1 \<Rightarrow> abort AttributeError rest1 log0
            | ChunkMsg chunk1 # rest1 \<Rightarrow>
                (let log1 = log0 @ [''GOSSIP POST GetBlockChunked:: => ''
                                      @ hexify_header L (header_of chunk1)]
                 in case rest1 of
                      [] \<Rightarrow> abort RuntimeError [] log1
                    | OtherMsg y # rest2 \<Rightarrow> abort AttributeError rest2 log1
                    | ChunkMsg chunk2 # rest2 \<Rightarrow>
                        (let log2 = log1 @ [''GOSSIP POST GetBlockChunked:: => ''
                                              @ str_nat (length (data_of chunk2))]
                         in case mutate_block_chunks L self chunk1 chunk2 of
                              Inl e \<Rightarrow> abort e rest2 log2
                            | Inr (chunk1', chunk2') \<Rightarrow>
                                \<lparr>emitted = [ChunkMsg chunk1', ChunkMsg chunk2'],
                                 unconsumed = rest2, raised = None, logged = log2\<rparr>)))
         else yield_from response
                (log0 @ map (\<lambda>r. ''GOSSIP POST REQUEST STREAM: '' @ name @ '' => ''
                                   @ hexify_item R r) response))"

subsection \<open>ProxyServicer\<close>

text \<open>\<^verbatim>\<open>str.startswith\<close> and \<^verbatim>\<open>str.endswith\<close>, by slices.\<close>

definition startswith :: "string \<Rightarrow> string \<Rightarrow> bool" where
  "startswith s p = (take (length p) s = p)"

definition endswith :: "string \<Rightarrow> string \<Rightarrow> bool" where
  "endswith s p = (length p \<le> length s \<and> drop (length s - length p) s = p)"

definition is_unary_stream :: "string \<Rightarrow> bool" where
  "is_unary_stream method_name =
     (startswith method_name ''Stream'' \<or> endswith method_name ''Chunked'')"

text \<open>The interceptor bound to a servicer, as its three hooks.\<close>

record ('q, 'r, 's) interceptor =
  pre_request :: "string \<Rightarrow> 'q \<Rightarrow> string list \<times> (error + 'q)"
  post_request :: "string \<Rightarrow> 'q \<Rightarrow> 'r \<Rightarrow> string list \<times> (error + 'r)"
  post_request_stream :: "string \<Rightarrow> 'q \<Rightarrow> 's list \<Rightarrow> 's stream_run"

text \<open>What the handlers read of \<^verbatim>\<open>self\<close>: the log prefix, the interceptor, and the stub
  of the upstream service, a unary method of which returns a response or fails and a
  streaming method of which returns the response stream. \<^verbatim>\<open>hexify\<close> renders the
  request.\<close>

record ('q, 'r, 's) ProxyServicer =
  log_prefix :: string
  interceptor :: "('q, 'r, 's) interceptor"
  service_method :: "string \<Rightarrow> 'q \<Rightarrow> error + 'r"
  streaming_service_method :: "string \<Rightarrow> 'q \<Rightarrow> 's list"
  hexify :: "'q \<Rightarrow> string"

definition unary_unary ::
  "('q, 'r, 's) ProxyServicer \<Rightarrow> string \<Rightarrow> 'q \<Rightarrow> string list \<times> (error + 'r)" where
  "unary_unary self name request =
     (let log0 = [log_prefix self @ '': ('' @ hexify self request @ '')'']
      in case pre_request (interceptor self) name request of
           (log1, Inl e) \<Rightarrow> (log0 @ log1, Inl e)
         | (log1, Inr preprocessed_request) \<Rightarrow>
             (case service_method self name preprocessed_request of
                Inl e \<Rightarrow> (log0 @ log1, Inl e)
              | Inr response \<Rightarrow>
                  (case post_request (interceptor self) name preprocessed_request response of
                     (log2, result) \<Rightarrow> (log0 @ log1 @ log2, result))))"

definition unary_stream ::
  "('q, 'r, 's) ProxyServicer \<Rightarrow> string \<Rightarrow> 'q \<Rightarrow> 's stream_run" where
  "unary_stream self name request =
     (let log0 = [log_prefix self @ '': ('' @ hexify self request @ '')'']
      in case pre_request (interceptor self) name request of
           (log1, Inl e) \<Rightarrow> abort e [] (log0 @ log1)
         | (log1, Inr preprocessed_request) \<Rightarrow>
             (let response_stream = streaming_service_method self name preprocessed_request;
                  run = post_request_stream (interceptor self) name preprocessed_request
                          response_stream
              in run\<lparr>logged := log0 @ log1 @ logged run\<rparr>))"

text \<open>\<^verbatim>\<open>__getattr__\<close> answers every method name with one of the two handlers.\<close>

datatype ('q, 'r, 's) handler =
    UnaryUnary "'q \<Rightarrow> string list \<times> (error + 'r)"
  | UnaryStream "'q \<Rightarrow> 's stream_run"

definition getattr :: "('q, 'r, 's) ProxyServicer \<Rightarrow> string \<Rightarrow> ('q, 'r, 's) handler" where
  "getattr self name =
     (if is_unary_stream name then UnaryStream (unary_stream self name)
      else UnaryUnary (unary_unary self name))"

subsection \<open>The interceptor classes as bound interceptors\<close>

text \<open>\<^verbatim>\<open>interceptor_class(node)\<close>: the hooks of a class, closed over its \<^verbatim>\<open>self.node\<close>
  and the functions it imports.\<close>

definition Interceptor :: "('q, 'r, 's) interceptor" where
  "Interceptor =
     \<lparr>pre_request = Interceptor_pre_request,
      post_request = Interceptor_post_request,
      post_request_stream = Interceptor_post_request_stream\<rparr>"

definition LoggingInterceptor :: "('q, 'r, 's) rendering \<Rightarrow> ('q, 'r, 's) interceptor" where
  "LoggingInterceptor R =
     \<lparr>pre_request = LoggingInterceptor_pre_request R,
      post_request = LoggingInterceptor_post_request R,
      post_request_stream = LoggingInterceptor_post_request_stream R\<rparr>"

definition KademliaInterceptor ::
  "('a sender_request_scheme, 'r, node) rendering \<Rightarrow> docker_node
     \<Rightarrow> ('a sender_request_scheme, 'r, node) interceptor" where
  "KademliaInterceptor R self =
     \<lparr>pre_request = KademliaInterceptor_pre_request R self,
      post_request = KademliaInterceptor_post_request R,
      post_request_stream = KademliaInterceptor_post_request_stream R self\<rparr>"

definition GossipInterceptor ::
  "('o gossip_request, 'r, 'p gossip_item) rendering \<Rightarrow> ('a, 'x) libs \<Rightarrow> docker_node
     \<Rightarrow> ('o gossip_request, 'r, 'p gossip_item) interceptor" where
  "GossipInterceptor R L self =
     \<lparr>pre_request = GossipInterceptor_pre_request R self,
      post_request = GossipInterceptor_post_request R,
      post_request_stream = GossipInterceptor_post_request_stream R L self\<rparr>"

subsection \<open>A small network to run the definitions on\<close>

text \<open>
  One registered node, and stand-ins for the imported functions that are small enough to
  evaluate: the compressor stores its input behind a tag byte, and the decompressor
  rejects the empty input and an input longer than the size it is given; a serialised
  block is a count followed by that many approvals of its only deploy, the empty input
  being the block of no deploys; a digest is the length of its input. The base64 decoder
  rejects a text whose length is not a multiple of four and otherwise decodes as base64
  does a text of the letter \<^verbatim>\<open>A\<close> (six zero bits) and padding; a signing key is a seed of
  32 or a key of 64 bytes, and a signature is the length of the key followed by the
  message. The node's key is the base64 text of a seed of 32 zero bytes.
\<close>

definition example_rendering ::
  "(unit gossip_request, unit, unit gossip_item) rendering" where
  "example_rendering =
     \<lparr>hexify_request = (\<lambda>q. ''request''),
      hexify_response = (\<lambda>r. ''response''),
      hexify_item = (\<lambda>s. ''item''),
      str_item = (\<lambda>s. ''item''),
      str_stream = ''stream''\<rparr>"

definition example_kademlia_rendering :: "(sender_request, unit, node) rendering" where
  "example_kademlia_rendering =
     \<lparr>hexify_request = (\<lambda>q. ''request''),
      hexify_response = (\<lambda>r. ''response''),
      hexify_item = (\<lambda>s. ''item''),
      str_item = (\<lambda>s. ''item''),
      str_stream = ''stream''\<rparr>"

definition example_node :: docker_node where
  "example_node =
     \<lparr>cl_network =
        [''4c19'' \<mapsto> \<lparr>proxy_host = ''proxy-1'', server_proxy_port = 40400,
                      kademlia_proxy_port = 40404\<rparr>],
      node_private_key = ''AAAAAAAAAAAAAAAAAAAAAAAAAAAAAAAAAAAAAAAAAAA=''\<rparr>"

text \<open>The same node with a key text that is not base64 (its padding is wrong).\<close>

definition example_keyless_node :: docker_node where
  "example_keyless_node = example_node\<lparr>node_private_key := ''key''\<rparr>"

definition example_sender :: node where
  "example_sender =
     \<lparr>node_id = [0x4c, 0x19], host = ''node-1'', protocol_port = 50400,
      discovery_port = 50404\<rparr>"

definition example_stranger :: node where
  "example_stranger =
     \<lparr>node_id = [0x00], host = ''node-9'', protocol_port = 50400, discovery_port = 50404\<rparr>"

definition example_block :: "bytes \<Rightarrow> (8 word, unit) block" where
  "example_block as =
     \<lparr>block_hash = [], header = \<lparr>body_hash = [], header_rest = ()\<rparr>,
      body = \<lparr>deploys = [\<lparr>deploy = \<lparr>approvals = as, deploy_rest = ()\<rparr>,
                          processed_rest = ()\<rparr>]\<rparr>,
      signature = \<lparr>sig_algorithm = [], sig = []\<rparr>\<rparr>"

definition example_parse :: "bytes \<Rightarrow> (8 word, unit) block option" where
  "example_parse raw =
     (case raw of
        [] \<Rightarrow> Some ((example_block [])\<lparr>body := \<lparr>deploys = []\<rparr>\<rparr>)
      | n # as \<Rightarrow> if length as = unat n then Some (example_block as) else None)"

definition example_libs :: "(8 word, unit) libs" where
  "example_libs =
     \<lparr>lz4_decompress =
        (\<lambda>d n. case d of [] \<Rightarrow> None
                | t # lit \<Rightarrow> if length lit \<le> n then Some lit else None),
      lz4_compress = (\<lambda>x. 0 # x),
      ParseFromString = example_parse,
      Body_SerializeToString =
        (\<lambda>b. concat (map (\<lambda>d. of_nat (length (approvals (deploy d))) # approvals (deploy d))
                         (deploys b))),
      Header_SerializeToString = (\<lambda>h. body_hash h),
      Block_SerializeToString =
        (\<lambda>b. of_nat (length (sig (signature b))) # sig (signature b)),
      blake2b_hash = (\<lambda>x. [of_nat (length x)]),
      b64decode =
        (\<lambda>s. if length s mod 4 = 0
              then Some (replicate (3 * (length s div 4) - length (filter (\<lambda>c. c = CHR ''='') s))
                           0)
              else None),
      ed25519_SigningKey =
        (\<lambda>seed. if length seed = 32 \<or> length seed = 64 then Some seed else None),
      ed25519_sign = (\<lambda>k m. of_nat (length k) # m),
      hexify_header = (\<lambda>h. ''header'')\<rparr>"

definition example_header_chunk :: chunk where
  "example_header_chunk =
     HeaderChunk \<lparr>compression_algorithm = ''lz4'', content_length = 4,
                  original_content_length = 3\<rparr>"

text \<open>A block of one deploy with two approvals, compressed, and a payload that does not
  decompress.\<close>

definition example_stream :: "unit gossip_item list" where
  "example_stream =
     [ChunkMsg example_header_chunk, ChunkMsg (DataChunk [0, 2, 7, 9]),
      ChunkMsg (DataChunk [1])]"

definition example_bad_stream :: "unit gossip_item list" where
  "example_bad_stream = [ChunkMsg example_header_chunk, ChunkMsg (DataChunk [])]"


definition example_new_blocks :: new_blocks_request where
  "example_new_blocks = \<lparr>sender = example_sender, block_hashes = [[0x0f, 0x44]]\<rparr>"

definition example_servicer :: "(unit gossip_request, unit, unit gossip_item) ProxyServicer" where
  "example_servicer =
     \<lparr>log_prefix = ''PROXY'',
      interceptor = GossipInterceptor example_rendering example_libs example_node,
      service_method = (\<lambda>name q. Inr ()),
      streaming_service_method = (\<lambda>name q. example_bad_stream),
      hexify = (\<lambda>q. ''request'')\<rparr>"

section \<open>Properties\<close>

subsection \<open>Auxiliary facts\<close>

text \<open>The slices of \<^verbatim>\<open>startswith\<close> and \<^verbatim>\<open>endswith\<close> are the prefix and suffix
  relations on lists.\<close>

lemma startswith_prefix: "startswith s p \<longleftrightarrow> prefix p s"
  unfolding startswith_def
  by (metis append_eq_conv_conj prefix_def append_take_drop_id)

lemma endswith_suffix: "endswith s p \<longleftrightarrow> suffix p s"
proof
  assume "endswith s p"
  then have "s = take (length s - length p) s @ p"
    by (metis append_take_drop_id endswith_def)
  then show "suffix p s" by (metis suffixI)
next
  assume "suffix p s"
  then obtain zs where "s = zs @ p" by (auto simp: suffix_def)
  then show "endswith s p" by (simp add: endswith_def)
qed

text \<open>The mutation path, step by step.\<close>

lemma resign_shape:
  assumes "deploys (body B) = d # ds"
    and "b64decode L (node_private_key self) = Some seed"
    and "ed25519_SigningKey L seed = Some sk"
  shows "\<exists>B' d'. remove_approvals_and_resign L self B = Inr B'
     \<and> deploys (body B') = d' # ds \<and> approvals (deploy d') = []
     \<and> body_hash (header B') = blake2b_hash L (Body_SerializeToString L (body B'))
     \<and> block_hash B' = blake2b_hash L (Header_SerializeToString L (header B'))
     \<and> signature B' = \<lparr>sig_algorithm = ''ed25519'',
           sig = ed25519_sign L sk (block_hash B')\<rparr>"
  using assms by (simp add: remove_approvals_and_resign_def Let_def)

lemma resign_failure:
  "remove_approvals_and_resign L self B = Inl e \<longleftrightarrow>
     (if deploys (body B) = [] then e = IndexError
      else case b64decode L (node_private_key self) of
             None \<Rightarrow> e = BinasciiError
           | Some seed \<Rightarrow> ed25519_SigningKey L seed = None \<and> e = ValueError)"
  by (auto simp add: remove_approvals_and_resign_def Let_def split: list.splits option.splits)

lemma get_block_chunked_run:
  "GossipInterceptor_post_request_stream R L self ''GetBlockChunked'' request
     (ChunkMsg chunk1 # ChunkMsg chunk2 # rest) =
   (let lg = [''GOSSIP POST REQUEST STREAM: GetBlockChunked('' @ hexify_request R request @ '')'',
              ''GOSSIP POST GetBlockChunked:: => '' @ hexify_header L (header_of chunk1),
              ''GOSSIP POST GetBlockChunked:: => '' @ str_nat (length (data_of chunk2))]
    in case mutate_block_chunks L self chunk1 chunk2 of
         Inl e \<Rightarrow> abort e rest lg
       | Inr (chunk1', chunk2') \<Rightarrow>
           \<lparr>emitted = [ChunkMsg chunk1', ChunkMsg chunk2'], unconsumed = rest,
            raised = None, logged = lg\<rparr>)"
  by (simp add: GossipInterceptor_post_request_stream_def Let_def split: sum.split prod.split)

lemma mutate_success:
  assumes "lz4_decompress L (data_of chunk2) (original_content_length (header_of chunk1)) = Some raw"
    and "ParseFromString L raw = Some B"
    and "remove_approvals_and_resign L self B = Inr B'"
  shows "mutate_block_chunks L self chunk1 chunk2 =
     Inr (HeaderChunk ((header_of chunk1)
            \<lparr>original_content_length := length (Block_SerializeToString L B'),
             content_length := length (lz4_compress L (Block_SerializeToString L B'))\<rparr>),
          DataChunk (lz4_compress L (Block_SerializeToString L B')))"
  using assms by (simp add: mutate_block_chunks_def Let_def)

text \<open>The outcomes of the two chunks' transformation, and the example values.\<close>

lemma mutate_failure:
  "mutate_block_chunks L self chunk1 chunk2 = Inl e \<longleftrightarrow>
     (case lz4_decompress L (data_of chunk2) (original_content_length (header_of chunk1)) of
        None \<Rightarrow> e = LZ4BlockError
      | Some raw \<Rightarrow>
          (case ParseFromString L raw of
             None \<Rightarrow> e = DecodeError
           | Some B \<Rightarrow> remove_approvals_and_resign L self B = Inl e))"
  by (auto simp add: mutate_block_chunks_def Let_def split: option.splits sum.splits)

lemma mutate_result:
  "mutate_block_chunks L self chunk1 chunk2 = Inr (c1, c2) \<Longrightarrow> \<exists>h d. c1 = HeaderChunk h \<and> c2 = DataChunk d"
  by (auto simp add: mutate_block_chunks_def Let_def split: option.splits sum.splits)

lemma mutate_success_cause:
  "mutate_block_chunks L self chunk1 chunk2 = Inr p \<Longrightarrow>
     \<exists>raw B seed sk.
        lz4_decompress L (data_of chunk2) (original_content_length (header_of chunk1)) = Some raw
        \<and> ParseFromString L raw = Some B \<and> deploys (body B) \<noteq> []
        \<and> b64decode L (node_private_key self) = Some seed
        \<and> ed25519_SigningKey L seed = Some sk"
  by (auto simp add: mutate_block_chunks_def remove_approvals_and_resign_def Let_def
      split: option.splits list.splits)

lemma mutate_failure_cause:
  "mutate_block_chunks L self chunk1 chunk2 = Inl e \<Longrightarrow>
     \<not> (\<exists>raw B seed sk.
        lz4_decompress L (data_of chunk2) (original_content_length (header_of chunk1)) = Some raw
        \<and> ParseFromString L raw = Some B \<and> deploys (body B) \<noteq> []
        \<and> b64decode L (node_private_key self) = Some seed
        \<and> ed25519_SigningKey L seed = Some sk)"
  by (auto simp add: mutate_failure resign_failure split: option.splits if_splits)

lemma example_decompress:
  "lz4_decompress example_libs (data_of (DataChunk [0, 2, 7, 9]))
     (original_content_length (header_of example_header_chunk)) = Some [2, 7, 9]"
  by (simp add: example_libs_def data_of_def header_of_def example_header_chunk_def)

lemma example_parse_block: "ParseFromString example_libs [2, 7, 9] = Some (example_block [7, 9])"
  by (simp add: example_libs_def example_parse_def)

lemma example_deploys: "deploys (body (example_block as)) \<noteq> []"
  by (simp add: example_block_def)

lemma example_bad_decompress:
  "lz4_decompress example_libs (data_of (DataChunk []))
     (original_content_length (header_of example_header_chunk)) = None"
  by (simp add: example_libs_def data_of_def)




lemma example_key:
  "b64decode example_libs (node_private_key example_node) = Some (replicate 32 0)"
  "ed25519_SigningKey example_libs (replicate 32 0) = Some (replicate 32 0)"
  "b64decode example_libs (node_private_key example_keyless_node) = None"
  by (simp_all add: example_libs_def example_node_def example_keyless_node_def)

lemma example_round_trip:
  "\<forall>x. lz4_decompress example_libs (lz4_compress example_libs x) (length x) = Some x"
  by (simp add: example_libs_def)

lemma example_resign:
  "remove_approvals_and_resign example_libs example_node (example_block [7, 9])
     = Inr \<lparr>block_hash = [1], header = \<lparr>body_hash = [1], header_rest = ()\<rparr>,
            body = \<lparr>deploys = [\<lparr>deploy = \<lparr>approvals = [], deploy_rest = ()\<rparr>,
                                processed_rest = ()\<rparr>]\<rparr>,
            signature = \<lparr>sig_algorithm = ''ed25519'', sig = [32, 1]\<rparr>\<rparr>"
  by (simp add: remove_approvals_and_resign_def example_block_def example_libs_def
      example_node_def Let_def)

lemma kademlia_stream_loop_run:
  "emitted (kademlia_stream_loop R self name rs)
     = map (\<lambda>r. patch_address (the (cl_network self (hex (node_id r)))) r)
         (takeWhile (\<lambda>r. cl_network self (hex (node_id r)) \<noteq> None) rs)
   \<and> unconsumed (kademlia_stream_loop R self name rs)
     = tl (dropWhile (\<lambda>r. cl_network self (hex (node_id r)) \<noteq> None) rs)
   \<and> raised (kademlia_stream_loop R self name rs)
     = (if \<forall>r\<in>set rs. cl_network self (hex (node_id r)) \<noteq> None then None
        else Some LookupError)"
proof (induction rs)
  case Nil
  show ?case by (simp add: yield_from_def)
next
  case (Cons r rs)
  show ?case
  proof (cases "cl_network self (hex (node_id r))")
    case None
    then show ?thesis by (simp add: lookup_node_def abort_def)
  next
    case (Some n)
    with Cons show ?thesis by (simp add: lookup_node_def Let_def)
  qed
qed

lemma patch_address_fields:
  "patch_address n r
     = \<lparr>node_id = node_id r, host = proxy_host n, protocol_port = server_proxy_port n,
        discovery_port = kademlia_proxy_port n\<rparr>"
  by (simp add: patch_address_def)

lemma example_lookup:
  "cl_network example_node (hex (node_id example_sender))
     = Some \<lparr>proxy_host = ''proxy-1'', server_proxy_port = 40400, kademlia_proxy_port = 40404\<rparr>"
  "cl_network example_node (hex (node_id example_stranger)) = None"
  by (simp_all add: example_node_def example_sender_def example_stranger_def hex_digit_def)

lemma example_pre_requests:
  "snd (KademliaInterceptor_pre_request example_kademlia_rendering example_node ''Ping''
          \<lparr>sender = example_sender\<rparr>)
     = Inr \<lparr>sender = \<lparr>node_id = [0x4c, 0x19], host = ''proxy-1'', protocol_port = 40400,
                       discovery_port = 40404\<rparr>\<rparr>"
  "snd (GossipInterceptor_pre_request example_rendering example_node ''NewBlocks''
          (NewBlocksRequest example_new_blocks))
     = Inr (NewBlocksRequest
              \<lparr>sender = \<lparr>node_id = [0x4c, 0x19], host = ''proxy-1'', protocol_port = 40400,
                          discovery_port = 40404\<rparr>,
               block_hashes = [[0x0f, 0x44]]\<rparr>)"
  using example_lookup(1)
  by (simp_all add: KademliaInterceptor_pre_request_def GossipInterceptor_pre_request_def
      lookup_node_def patch_address_def example_new_blocks_def Let_def)
    (simp_all add: example_sender_def)

subsection \<open>The properties of the specification\<close>

text \<open>
  C6. For every method name, request and response, the base \<^verbatim>\<open>Interceptor\<close> returns the
  request unchanged from \<open>pre_request\<close>, the response unchanged from \<open>post_request\<close>, and
  its \<open>post_request_stream\<close> yields exactly the input sequence (all of it, ending
  normally); the three hooks of \<^verbatim>\<open>LoggingInterceptor\<close> satisfy the same identities:
  they only add log lines.
\<close>

theorem passthrough_identity:
  "snd (Interceptor_pre_request name request) = Inr request
   \<and> snd (Interceptor_post_request name request response) = Inr response
   \<and> emitted (Interceptor_post_request_stream name request stream) = stream
   \<and> unconsumed (Interceptor_post_request_stream name request stream) = []
   \<and> raised (Interceptor_post_request_stream name request stream) = None
   \<and> snd (LoggingInterceptor_pre_request R name request) = Inr request
   \<and> snd (LoggingInterceptor_post_request R name request response) = Inr response
   \<and> emitted (LoggingInterceptor_post_request_stream R name request stream) = stream
   \<and> unconsumed (LoggingInterceptor_post_request_stream R name request stream) = []
   \<and> raised (LoggingInterceptor_post_request_stream R name request stream) = None"
  by (simp add: Interceptor_pre_request_def Interceptor_post_request_def
      Interceptor_post_request_stream_def LoggingInterceptor_pre_request_def
      LoggingInterceptor_post_request_def LoggingInterceptor_post_request_stream_def
      yield_from_def)

text \<open>
  C1. For every block whose body has at least one deploy, the \<^verbatim>\<open>GetBlockChunked\<close> path of
  \<^verbatim>\<open>GossipInterceptor.post_request_stream\<close>, with the private key the proxy holds (the
  configured key text decodes to a seed from which the signing key is constructed),
  produces a block \<open>B'\<close> (the data chunk it yields is the compressed serialisation of
  \<open>B'\<close>) whose first deploy has no approvals, the other deploys being those of the input;
  \<open>header.body_hash\<close> is the digest of the serialised body of \<open>B'\<close>, \<open>block_hash\<close> the
  digest of the serialised header of \<open>B'\<close> (which holds the new body hash), and the
  signature is tagged \<^verbatim>\<open>ed25519\<close> and signs the new block hash with that signing key:
  each derived field is computed from the one assigned before it.
\<close>

theorem resigning_correct:
  assumes "lz4_decompress L (data_of chunk2) (original_content_length (header_of chunk1)) = Some raw"
    and "ParseFromString L raw = Some B"
    and "deploys (body B) \<noteq> []"
    and "b64decode L (node_private_key self) = Some seed"
    and "ed25519_SigningKey L seed = Some signing_key"
  shows "\<exists>B' d' h'. remove_approvals_and_resign L self B = Inr B'
     \<and> emitted (GossipInterceptor_post_request_stream R L self ''GetBlockChunked'' request
          (ChunkMsg chunk1 # ChunkMsg chunk2 # rest))
        = [ChunkMsg (HeaderChunk h'),
           ChunkMsg (DataChunk (lz4_compress L (Block_SerializeToString L B')))]
     \<and> deploys (body B') = d' # tl (deploys (body B)) \<and> approvals (deploy d') = []
     \<and> body_hash (header B') = blake2b_hash L (Body_SerializeToString L (body B'))
     \<and> block_hash B' = blake2b_hash L (Header_SerializeToString L (header B'))
     \<and> signature B' = \<lparr>sig_algorithm = ''ed25519'',
           sig = ed25519_sign L signing_key (block_hash B')\<rparr>"
proof -
  from assms(3) obtain d ds where ds: "deploys (body B) = d # ds"
    by (cases "deploys (body B)") auto
  from resign_shape [OF ds assms(4,5)] obtain B' d' where
    r: "remove_approvals_and_resign L self B = Inr B'"
    and p: "deploys (body B') = d' # ds" "approvals (deploy d') = []"
      "body_hash (header B') = blake2b_hash L (Body_SerializeToString L (body B'))"
      "block_hash B' = blake2b_hash L (Header_SerializeToString L (header B'))"
      "signature B' = \<lparr>sig_algorithm = ''ed25519'',
           sig = ed25519_sign L signing_key (block_hash B')\<rparr>"
    by blast
  have "emitted (GossipInterceptor_post_request_stream R L self ''GetBlockChunked'' request
          (ChunkMsg chunk1 # ChunkMsg chunk2 # rest))
        = [ChunkMsg (HeaderChunk ((header_of chunk1)
            \<lparr>original_content_length := length (Block_SerializeToString L B'),
             content_length := length (lz4_compress L (Block_SerializeToString L B'))\<rparr>)),
           ChunkMsg (DataChunk (lz4_compress L (Block_SerializeToString L B')))]"
    by (simp add: get_block_chunked_run mutate_success [OF assms(1,2) r])
  with r p ds show ?thesis by auto
qed

theorem resigning_correct_witness:
  "deploys (body (example_block [7, 9])) \<noteq> []
   \<and> b64decode example_libs (node_private_key example_node) = Some (replicate 32 0)
   \<and> ed25519_SigningKey example_libs (replicate 32 0) = Some (replicate 32 0)
   \<and> (\<exists>B' d' h'. remove_approvals_and_resign example_libs example_node (example_block [7, 9]) = Inr B'
     \<and> emitted (GossipInterceptor_post_request_stream example_rendering example_libs example_node
           ''GetBlockChunked'' (OtherRequest ()) example_stream)
        = [ChunkMsg (HeaderChunk h'),
           ChunkMsg (DataChunk (lz4_compress example_libs (Block_SerializeToString example_libs B')))]
     \<and> deploys (body B') = [d'] \<and> approvals (deploy d') = []
     \<and> body_hash (header B')
         = blake2b_hash example_libs (Body_SerializeToString example_libs (body B'))
     \<and> block_hash B'
         = blake2b_hash example_libs (Header_SerializeToString example_libs (header B'))
     \<and> signature B' = \<lparr>sig_algorithm = ''ed25519'',
           sig = ed25519_sign example_libs (replicate 32 0) (block_hash B')\<rparr>)"
proof -
  have d: "tl (deploys (body (example_block [7, 9]))) = []"
    by (simp add: example_block_def)
  from resigning_correct [OF example_decompress example_parse_block example_deploys
      example_key(1,2), of example_rendering "OtherRequest ()" "[ChunkMsg (DataChunk [1])]"]
  show ?thesis
    unfolding d example_stream_def [symmetric]
    using example_deploys example_key(1,2) by (simp add: example_stream_def)
qed

text \<open>
  C2, as the code has it. For every upstream response stream that starts with two chunks,
  the \<^verbatim>\<open>GetBlockChunked\<close> branch pulls exactly these two (what follows them stays in the
  upstream iterator). When the data chunk decompresses and deserialises to a block with at
  least one deploy, and the configured key text decodes to a seed from which the signing
  key is constructed, it yields exactly two elements, a header chunk and then a data
  chunk, and ends normally; otherwise it yields nothing and ends with an exception.
\<close>

theorem chunk_framing:
  "unconsumed (GossipInterceptor_post_request_stream R L self ''GetBlockChunked'' request
       (ChunkMsg chunk1 # ChunkMsg chunk2 # rest)) = rest
   \<and> ((\<exists>raw B seed signing_key.
          lz4_decompress L (data_of chunk2) (original_content_length (header_of chunk1))
            = Some raw
          \<and> ParseFromString L raw = Some B \<and> deploys (body B) \<noteq> []
          \<and> b64decode L (node_private_key self) = Some seed
          \<and> ed25519_SigningKey L seed = Some signing_key)
        \<longrightarrow> (\<exists>h d. emitted (GossipInterceptor_post_request_stream R L self ''GetBlockChunked''
                           request (ChunkMsg chunk1 # ChunkMsg chunk2 # rest))
                      = [ChunkMsg (HeaderChunk h), ChunkMsg (DataChunk d)])
            \<and> raised (GossipInterceptor_post_request_stream R L self ''GetBlockChunked''
                         request (ChunkMsg chunk1 # ChunkMsg chunk2 # rest)) = None)
   \<and> (\<not> (\<exists>raw B seed signing_key.
          lz4_decompress L (data_of chunk2) (original_content_length (header_of chunk1))
            = Some raw
          \<and> ParseFromString L raw = Some B \<and> deploys (body B) \<noteq> []
          \<and> b64decode L (node_private_key self) = Some seed
          \<and> ed25519_SigningKey L seed = Some signing_key)
        \<longrightarrow> emitted (GossipInterceptor_post_request_stream R L self ''GetBlockChunked''
                           request (ChunkMsg chunk1 # ChunkMsg chunk2 # rest)) = []
            \<and> (\<exists>e. raised (GossipInterceptor_post_request_stream R L self ''GetBlockChunked''
                         request (ChunkMsg chunk1 # ChunkMsg chunk2 # rest)) = Some e))"
proof (cases "mutate_block_chunks L self chunk1 chunk2")
  case (Inl e)
  with mutate_failure_cause [OF Inl] show ?thesis
    by (simp add: get_block_chunked_run abort_def)
next
  case (Inr p)
  obtain c1 c2 where p: "p = (c1, c2)" by (cases p)
  with Inr mutate_result obtain h d where "c1 = HeaderChunk h" "c2 = DataChunk d"
    by blast
  with Inr p mutate_success_cause [OF Inr] show ?thesis
    by (simp add: get_block_chunked_run)
qed

text \<open>Without the condition on the payload the property fails: on a stream of two chunks
  whose payload does not decompress, nothing is yielded.\<close>

theorem chunk_framing_counterexample:
  "2 \<le> length example_bad_stream
   \<and> emitted (GossipInterceptor_post_request_stream example_rendering example_libs example_node
        ''GetBlockChunked'' (OtherRequest ()) example_bad_stream) = []
   \<and> raised (GossipInterceptor_post_request_stream example_rendering example_libs example_node
        ''GetBlockChunked'' (OtherRequest ()) example_bad_stream) = Some LZ4BlockError"
  by (simp add: GossipInterceptor_post_request_stream_def example_bad_stream_def
      example_header_chunk_def mutate_block_chunks_def example_libs_def example_rendering_def
      header_of_def data_of_def abort_def)

theorem chunk_framing_witness:
  "unconsumed (GossipInterceptor_post_request_stream example_rendering example_libs example_node
       ''GetBlockChunked'' (OtherRequest ()) example_stream) = [ChunkMsg (DataChunk [1])]
   \<and> (\<exists>h d. emitted (GossipInterceptor_post_request_stream example_rendering example_libs
                 example_node ''GetBlockChunked'' (OtherRequest ()) example_stream)
              = [ChunkMsg (HeaderChunk h), ChunkMsg (DataChunk d)])
   \<and> raised (GossipInterceptor_post_request_stream example_rendering example_libs example_node
       ''GetBlockChunked'' (OtherRequest ()) example_stream) = None
   \<and> unconsumed (GossipInterceptor_post_request_stream example_rendering example_libs example_node
       ''GetBlockChunked'' (OtherRequest ()) example_bad_stream) = []
   \<and> emitted (GossipInterceptor_post_request_stream example_rendering example_libs example_node
       ''GetBlockChunked'' (OtherRequest ()) example_bad_stream) = []
   \<and> (\<exists>e. raised (GossipInterceptor_post_request_stream example_rendering example_libs example_node
       ''GetBlockChunked'' (OtherRequest ()) example_bad_stream) = Some e)
   \<and> emitted (GossipInterceptor_post_request_stream example_rendering example_libs
       example_keyless_node ''GetBlockChunked'' (OtherRequest ()) example_stream) = []
   \<and> (\<exists>e. raised (GossipInterceptor_post_request_stream example_rendering example_libs
       example_keyless_node ''GetBlockChunked'' (OtherRequest ()) example_stream) = Some e)"
proof -
  have ok: "\<exists>raw B seed signing_key.
              lz4_decompress example_libs (data_of (DataChunk [0, 2, 7, 9]))
                (original_content_length (header_of example_header_chunk)) = Some raw
              \<and> ParseFromString example_libs raw = Some B \<and> deploys (body B) \<noteq> []
              \<and> b64decode example_libs (node_private_key example_node) = Some seed
              \<and> ed25519_SigningKey example_libs seed = Some signing_key"
    using example_decompress example_parse_block example_deploys example_key(1,2) by blast
  have bad: "\<not> (\<exists>raw B seed signing_key.
              lz4_decompress example_libs (data_of (DataChunk []))
                (original_content_length (header_of example_header_chunk)) = Some raw
              \<and> ParseFromString example_libs raw = Some B \<and> deploys (body B) \<noteq> []
              \<and> b64decode example_libs (node_private_key example_node) = Some seed
              \<and> ed25519_SigningKey example_libs seed = Some signing_key)"
    using example_bad_decompress by simp
  have keyless: "\<not> (\<exists>raw B seed signing_key.
              lz4_decompress example_libs (data_of (DataChunk [0, 2, 7, 9]))
                (original_content_length (header_of example_header_chunk)) = Some raw
              \<and> ParseFromString example_libs raw = Some B \<and> deploys (body B) \<noteq> []
              \<and> b64decode example_libs (node_private_key example_keyless_node) = Some seed
              \<and> ed25519_SigningKey example_libs seed = Some signing_key)"
    using example_key(3) by simp
  have good_run:
    "unconsumed (GossipInterceptor_post_request_stream example_rendering example_libs example_node
       ''GetBlockChunked'' (OtherRequest ()) example_stream) = [ChunkMsg (DataChunk [1])]
     \<and> (\<exists>h d. emitted (GossipInterceptor_post_request_stream example_rendering example_libs
                 example_node ''GetBlockChunked'' (OtherRequest ()) example_stream)
              = [ChunkMsg (HeaderChunk h), ChunkMsg (DataChunk d)])
     \<and> raised (GossipInterceptor_post_request_stream example_rendering example_libs example_node
       ''GetBlockChunked'' (OtherRequest ()) example_stream) = None"
    unfolding example_stream_def
    using ok chunk_framing [of example_rendering example_libs example_node "OtherRequest ()"
      example_header_chunk "DataChunk [0, 2, 7, 9]" "[ChunkMsg (DataChunk [1])]"]
    by simp
  have bad_run:
    "unconsumed (GossipInterceptor_post_request_stream example_rendering example_libs example_node
       ''GetBlockChunked'' (OtherRequest ()) example_bad_stream) = []
     \<and> emitted (GossipInterceptor_post_request_stream example_rendering example_libs example_node
       ''GetBlockChunked'' (OtherRequest ()) example_bad_stream) = []
     \<and> (\<exists>e. raised (GossipInterceptor_post_request_stream example_rendering example_libs
       example_node ''GetBlockChunked'' (OtherRequest ()) example_bad_stream) = Some e)"
    unfolding example_bad_stream_def
    using bad chunk_framing [of example_rendering example_libs example_node "OtherRequest ()"
      example_header_chunk "DataChunk []" "[]"]
    by simp
  have keyless_run:
    "emitted (GossipInterceptor_post_request_stream example_rendering example_libs
       example_keyless_node ''GetBlockChunked'' (OtherRequest ()) example_stream) = []
     \<and> (\<exists>e. raised (GossipInterceptor_post_request_stream example_rendering example_libs
       example_keyless_node ''GetBlockChunked'' (OtherRequest ()) example_stream) = Some e)"
    unfolding example_stream_def
    using keyless chunk_framing [of example_rendering example_libs example_keyless_node
      "OtherRequest ()" example_header_chunk "DataChunk [0, 2, 7, 9]"
      "[ChunkMsg (DataChunk [1])]"]
    by simp
  from good_run bad_run keyless_run show ?thesis by simp
qed




text \<open>
  C5. Given that lz4 decompresses what it compressed when it is told the original length,
  after the \<^verbatim>\<open>GetBlockChunked\<close> mutation the yielded data chunk holds the compressed
  serialisation of the mutated block, the yielded header chunk has
  \<open>original_content_length\<close> the length of that serialisation and \<open>content_length\<close> the
  length of the compressed payload (its compression algorithm is the one received), and
  decompressing the yielded payload with the yielded \<open>original_content_length\<close> gives
  back exactly the serialised mutated block.
\<close>

theorem compression_round_trip:
  assumes "\<forall>x. lz4_decompress L (lz4_compress L x) (length x) = Some x"
    and "lz4_decompress L (data_of chunk2) (original_content_length (header_of chunk1)) = Some raw"
    and "ParseFromString L raw = Some B"
    and "remove_approvals_and_resign L self B = Inr B'"
  shows "\<exists>h d. emitted (GossipInterceptor_post_request_stream R L self ''GetBlockChunked'' request
                     (ChunkMsg chunk1 # ChunkMsg chunk2 # rest))
                = [ChunkMsg (HeaderChunk h), ChunkMsg (DataChunk d)]
           \<and> d = lz4_compress L (Block_SerializeToString L B')
           \<and> original_content_length h = length (Block_SerializeToString L B')
           \<and> content_length h = length d
           \<and> compression_algorithm h = compression_algorithm (header_of chunk1)
           \<and> lz4_decompress L d (original_content_length h)
               = Some (Block_SerializeToString L B')"
proof -
  let ?X = "Block_SerializeToString L B'"
  let ?h = "(header_of chunk1)\<lparr>original_content_length := length ?X,
              content_length := length (lz4_compress L ?X)\<rparr>"
  have "emitted (GossipInterceptor_post_request_stream R L self ''GetBlockChunked'' request
                     (ChunkMsg chunk1 # ChunkMsg chunk2 # rest))
        = [ChunkMsg (HeaderChunk ?h), ChunkMsg (DataChunk (lz4_compress L ?X))]"
    by (simp add: get_block_chunked_run mutate_success [OF assms(2,3,4)])
  moreover from assms(1) have "lz4_decompress L (lz4_compress L ?X) (original_content_length ?h)
      = Some ?X"
    by simp
  ultimately show ?thesis by simp
qed

theorem compression_round_trip_witness:
  "\<exists>h d. emitted (GossipInterceptor_post_request_stream example_rendering example_libs
               example_node ''GetBlockChunked'' (OtherRequest ()) example_stream)
            = [ChunkMsg (HeaderChunk h), ChunkMsg (DataChunk d)]
         \<and> d = [0, 2, 32, 1]
         \<and> original_content_length h = 3
         \<and> content_length h = 4
         \<and> compression_algorithm h = ''lz4''
         \<and> lz4_decompress example_libs d (original_content_length h)
             = Some [2, 32, 1]"
proof -
  have ser: "Block_SerializeToString example_libs
      \<lparr>block_hash = [1], header = \<lparr>body_hash = [1], header_rest = ()\<rparr>,
            body = \<lparr>deploys = [\<lparr>deploy = \<lparr>approvals = [], deploy_rest = ()\<rparr>,
                                processed_rest = ()\<rparr>]\<rparr>,
            signature = \<lparr>sig_algorithm = ''ed25519'', sig = [32, 1]\<rparr>\<rparr>
      = [2, 32, 1]"
    by (simp add: example_libs_def)
  have cmp: "lz4_compress example_libs [2, 32, 1] = [0, 2, 32, 1]"
    by (simp add: example_libs_def)
  have alg: "compression_algorithm (header_of example_header_chunk) = ''lz4''"
    by (simp add: header_of_def example_header_chunk_def)
  from compression_round_trip [OF example_round_trip example_decompress example_parse_block
      example_resign, of example_rendering "OtherRequest ()" "[ChunkMsg (DataChunk [1])]"]
  show ?thesis
    unfolding ser cmp alg example_stream_def by (simp add: eval_nat_numeral)
qed

text \<open>
  C8. For every gossip streaming operation other than \<^verbatim>\<open>GetBlockChunked\<close>,
  \<open>post_request_stream\<close> yields the upstream elements unchanged and in order, all of
  them, and ends normally; it logs one line per element.
\<close>

theorem other_streams_pass_through:
  assumes "name \<noteq> ''GetBlockChunked''"
  shows "emitted (GossipInterceptor_post_request_stream R L self name request response) = response
   \<and> unconsumed (GossipInterceptor_post_request_stream R L self name request response) = []
   \<and> raised (GossipInterceptor_post_request_stream R L self name request response) = None
   \<and> logged (GossipInterceptor_post_request_stream R L self name request response)
       = (''GOSSIP POST REQUEST STREAM: '' @ name @ ''('' @ hexify_request R request @ '')'')
         # map (\<lambda>r. ''GOSSIP POST REQUEST STREAM: '' @ name @ '' => '' @ hexify_item R r) response"
  using assms by (simp add: GossipInterceptor_post_request_stream_def yield_from_def Let_def)

theorem other_streams_pass_through_witness:
  "emitted (GossipInterceptor_post_request_stream example_rendering example_libs example_node
       ''StreamBlockSummaries'' (OtherRequest ()) example_stream) = example_stream
   \<and> unconsumed (GossipInterceptor_post_request_stream example_rendering example_libs example_node
       ''StreamBlockSummaries'' (OtherRequest ()) example_stream) = []
   \<and> raised (GossipInterceptor_post_request_stream example_rendering example_libs example_node
       ''StreamBlockSummaries'' (OtherRequest ()) example_stream) = None"
proof -
  have "''StreamBlockSummaries'' \<noteq> ''GetBlockChunked''" by simp
  from other_streams_pass_through [OF this, of example_rendering example_libs example_node
      "OtherRequest ()" example_stream]
  show ?thesis by simp
qed

text \<open>
  C9. If the upstream stream of \<^verbatim>\<open>GetBlockChunked\<close> has fewer than two elements,
  \<open>post_request_stream\<close> ends with an exception and has yielded nothing: the
  \<^verbatim>\<open>StopIteration\<close> of \<^verbatim>\<open>next\<close> inside the generator body becomes a
  \<^verbatim>\<open>RuntimeError\<close> (or the only element is not a chunk).
\<close>

theorem short_stream_fails:
  assumes "length response < 2"
  shows "emitted (GossipInterceptor_post_request_stream R L self ''GetBlockChunked'' request
            response) = []
   \<and> raised (GossipInterceptor_post_request_stream R L self ''GetBlockChunked'' request response)
       = Some (if \<exists>x. response = [OtherMsg x] then AttributeError else RuntimeError)"
  using assms
  by (auto simp add: GossipInterceptor_post_request_stream_def abort_def Let_def
      split: list.splits gossip_item.splits)

theorem short_stream_fails_witness:
  "emitted (GossipInterceptor_post_request_stream example_rendering example_libs example_node
       ''GetBlockChunked'' (OtherRequest ()) [ChunkMsg example_header_chunk]) = []
   \<and> raised (GossipInterceptor_post_request_stream example_rendering example_libs example_node
       ''GetBlockChunked'' (OtherRequest ()) [ChunkMsg example_header_chunk]) = Some RuntimeError
   \<and> emitted (GossipInterceptor_post_request_stream example_rendering example_libs example_node
       ''GetBlockChunked'' (OtherRequest ()) []) = []
   \<and> raised (GossipInterceptor_post_request_stream example_rendering example_libs example_node
       ''GetBlockChunked'' (OtherRequest ()) []) = Some RuntimeError"
proof -
  have one: "length [ChunkMsg example_header_chunk :: unit gossip_item] < 2" by simp
  have none: "length ([] :: unit gossip_item list) < 2" by simp
  from short_stream_fails [OF one, of example_rendering example_libs example_node "OtherRequest ()"]
    short_stream_fails [OF none, of example_rendering example_libs example_node "OtherRequest ()"]
  show ?thesis by simp
qed

text \<open>
  C3. For a discovery request whose sender identity resolves in the node registry,
  \<open>pre_request\<close> returns the request with the sender's host, protocol port and discovery
  port equal to the registry entry's proxy host, server proxy port and kademlia proxy
  port; an identity that does not resolve fails the call. \<open>post_request_stream\<close> applies
  the same substitution to every element of a streamed peer list, one output per input
  in the input order, when every identity resolves, and fails when one does not.
\<close>

theorem address_rewrite:
  "(cl_network self (hex (node_id (sender request))) = Some n \<longrightarrow>
      snd (KademliaInterceptor_pre_request R self name request)
        = Inr (request\<lparr>sender :=
                 \<lparr>node_id = node_id (sender request), host = proxy_host n,
                  protocol_port = server_proxy_port n,
                  discovery_port = kademlia_proxy_port n\<rparr>\<rparr>))
   \<and> (cl_network self (hex (node_id (sender request))) = None \<longrightarrow>
      snd (KademliaInterceptor_pre_request R self name request) = Inl LookupError)
   \<and> ((\<forall>r\<in>set response. cl_network self (hex (node_id r)) \<noteq> None) \<longrightarrow>
      emitted (KademliaInterceptor_post_request_stream R' self name request' response)
        = map (\<lambda>r. \<lparr>node_id = node_id r,
                      host = proxy_host (the (cl_network self (hex (node_id r)))),
                      protocol_port = server_proxy_port (the (cl_network self (hex (node_id r)))),
                      discovery_port
                        = kademlia_proxy_port (the (cl_network self (hex (node_id r))))\<rparr>)
            response
      \<and> unconsumed (KademliaInterceptor_post_request_stream R' self name request' response) = []
      \<and> raised (KademliaInterceptor_post_request_stream R' self name request' response) = None)
   \<and> (\<not> (\<forall>r\<in>set response. cl_network self (hex (node_id r)) \<noteq> None) \<longrightarrow>
      raised (KademliaInterceptor_post_request_stream R' self name request' response)
        = Some LookupError)"
proof -
  have pre_ok: "cl_network self (hex (node_id (sender request))) = Some n \<longrightarrow>
      snd (KademliaInterceptor_pre_request R self name request)
        = Inr (request\<lparr>sender :=
                 \<lparr>node_id = node_id (sender request), host = proxy_host n,
                  protocol_port = server_proxy_port n,
                  discovery_port = kademlia_proxy_port n\<rparr>\<rparr>)"
    by (simp add: KademliaInterceptor_pre_request_def lookup_node_def Let_def
        patch_address_fields)
  have pre_fail: "cl_network self (hex (node_id (sender request))) = None \<longrightarrow>
      snd (KademliaInterceptor_pre_request R self name request) = Inl LookupError"
    by (simp add: KademliaInterceptor_pre_request_def lookup_node_def)
  note run = kademlia_stream_loop_run [of R' self name response]
  have stream_ok: "(\<forall>r\<in>set response. cl_network self (hex (node_id r)) \<noteq> None) \<longrightarrow>
      emitted (KademliaInterceptor_post_request_stream R' self name request' response)
        = map (\<lambda>r. \<lparr>node_id = node_id r,
                      host = proxy_host (the (cl_network self (hex (node_id r)))),
                      protocol_port = server_proxy_port (the (cl_network self (hex (node_id r)))),
                      discovery_port
                        = kademlia_proxy_port (the (cl_network self (hex (node_id r))))\<rparr>)
            response
      \<and> unconsumed (KademliaInterceptor_post_request_stream R' self name request' response) = []
      \<and> raised (KademliaInterceptor_post_request_stream R' self name request' response) = None"
  proof
    assume all: "\<forall>r\<in>set response. cl_network self (hex (node_id r)) \<noteq> None"
    then have tw: "takeWhile (\<lambda>r. cl_network self (hex (node_id r)) \<noteq> None) response
                     = response"
      and dw: "dropWhile (\<lambda>r. cl_network self (hex (node_id r)) \<noteq> None) response = []"
      by simp_all
    from all run [unfolded tw dw]
    show "emitted (KademliaInterceptor_post_request_stream R' self name request' response)
        = map (\<lambda>r. \<lparr>node_id = node_id r,
                      host = proxy_host (the (cl_network self (hex (node_id r)))),
                      protocol_port = server_proxy_port (the (cl_network self (hex (node_id r)))),
                      discovery_port
                        = kademlia_proxy_port (the (cl_network self (hex (node_id r))))\<rparr>)
            response
      \<and> unconsumed (KademliaInterceptor_post_request_stream R' self name request' response) = []
      \<and> raised (KademliaInterceptor_post_request_stream R' self name request' response) = None"
      by (simp add: KademliaInterceptor_post_request_stream_def Let_def patch_address_fields)
  qed
  have stream_fail: "\<not> (\<forall>r\<in>set response. cl_network self (hex (node_id r)) \<noteq> None) \<longrightarrow>
      raised (KademliaInterceptor_post_request_stream R' self name request' response)
        = Some LookupError"
    using run by (simp add: KademliaInterceptor_post_request_stream_def Let_def)
  from pre_ok pre_fail stream_ok stream_fail show ?thesis by blast
qed

theorem address_rewrite_witness:
  "snd (KademliaInterceptor_pre_request example_kademlia_rendering example_node ''Ping''
          \<lparr>sender = example_sender\<rparr>)
     = Inr \<lparr>sender = \<lparr>node_id = [0x4c, 0x19], host = ''proxy-1'', protocol_port = 40400,
                       discovery_port = 40404\<rparr>\<rparr>
   \<and> snd (KademliaInterceptor_pre_request example_kademlia_rendering example_node ''Ping''
          \<lparr>sender = example_stranger\<rparr>) = Inl LookupError
   \<and> emitted (KademliaInterceptor_post_request_stream example_kademlia_rendering example_node
        ''Lookup'' \<lparr>sender = example_sender\<rparr> [example_sender, example_sender])
     = [\<lparr>node_id = [0x4c, 0x19], host = ''proxy-1'', protocol_port = 40400,
         discovery_port = 40404\<rparr>,
        \<lparr>node_id = [0x4c, 0x19], host = ''proxy-1'', protocol_port = 40400,
         discovery_port = 40404\<rparr>]
   \<and> raised (KademliaInterceptor_post_request_stream example_kademlia_rendering example_node
        ''Lookup'' \<lparr>sender = example_sender\<rparr> [example_sender, example_sender]) = None
   \<and> raised (KademliaInterceptor_post_request_stream example_kademlia_rendering example_node
        ''Lookup'' \<lparr>sender = example_sender\<rparr> [example_sender, example_stranger])
     = Some LookupError"
proof -
  have id: "node_id example_sender = [0x4c, 0x19]" by (simp add: example_sender_def)
  have a: "snd (KademliaInterceptor_pre_request example_kademlia_rendering example_node ''Ping''
          \<lparr>sender = example_sender\<rparr>)
     = Inr \<lparr>sender = \<lparr>node_id = [0x4c, 0x19], host = ''proxy-1'', protocol_port = 40400,
                       discovery_port = 40404\<rparr>\<rparr>"
    using address_rewrite [where self = example_node
        and request = "\<lparr>sender = example_sender\<rparr>"
        and n = "\<lparr>proxy_host = ''proxy-1'', server_proxy_port = 40400, kademlia_proxy_port = 40404\<rparr>"
        and R = example_kademlia_rendering
        and name = "''Ping''"
        and response = "[]"
        and R' = example_kademlia_rendering
        and request' = "\<lparr>sender = example_sender\<rparr>"]
      example_lookup(1)
    by (simp add: id)
  have b: "snd (KademliaInterceptor_pre_request example_kademlia_rendering example_node ''Ping''
          \<lparr>sender = example_stranger\<rparr>) = Inl LookupError"
    using address_rewrite [where self = example_node
        and request = "\<lparr>sender = example_stranger\<rparr>"
        and R = example_kademlia_rendering
        and name = "''Ping''"
        and response = "[]"
        and R' = example_kademlia_rendering
        and request' = "\<lparr>sender = example_sender\<rparr>"]
      example_lookup(2)
    by simp
  have c: "emitted (KademliaInterceptor_post_request_stream example_kademlia_rendering example_node
        ''Lookup'' \<lparr>sender = example_sender\<rparr> [example_sender, example_sender])
     = [\<lparr>node_id = [0x4c, 0x19], host = ''proxy-1'', protocol_port = 40400,
         discovery_port = 40404\<rparr>,
        \<lparr>node_id = [0x4c, 0x19], host = ''proxy-1'', protocol_port = 40400,
         discovery_port = 40404\<rparr>]
     \<and> raised (KademliaInterceptor_post_request_stream example_kademlia_rendering example_node
        ''Lookup'' \<lparr>sender = example_sender\<rparr> [example_sender, example_sender]) = None"
    using address_rewrite [where self = example_node
        and request = "\<lparr>sender = example_sender\<rparr>"
        and R = example_kademlia_rendering
        and name = "''Lookup''"
        and response = "[example_sender, example_sender]"
        and R' = example_kademlia_rendering
        and request' = "\<lparr>sender = example_sender\<rparr>"]
      example_lookup(1)
    by (simp add: id)
  have d: "raised (KademliaInterceptor_post_request_stream example_kademlia_rendering example_node
        ''Lookup'' \<lparr>sender = example_sender\<rparr> [example_sender, example_stranger])
     = Some LookupError"
    using address_rewrite [where self = example_node
        and request = "\<lparr>sender = example_sender\<rparr>"
        and R = example_kademlia_rendering
        and name = "''Lookup''"
        and response = "[example_sender, example_stranger]"
        and R' = example_kademlia_rendering
        and request' = "\<lparr>sender = example_sender\<rparr>"]
      example_lookup
    by simp
  from a b c d show ?thesis by simp
qed

text \<open>
  C10. The address rewrites change only the host, the protocol port and the discovery
  port of the sender: a request returned by \<^verbatim>\<open>KademliaInterceptor.pre_request\<close> is the
  request received with these three fields of its sender replaced, so the sender's
  identity and every other field are unchanged; likewise for
  \<^verbatim>\<open>GossipInterceptor.pre_request\<close> on \<^verbatim>\<open>NewBlocks\<close>, where the block hashes are
  unchanged; for every other gossip method the request is returned as it is.
\<close>

theorem rewrite_frame:
  "(snd (KademliaInterceptor_pre_request R self name request) = Inr request' \<longrightarrow>
      (\<exists>h p d. request' = request\<lparr>sender := (sender request)
                              \<lparr>host := h, protocol_port := p, discovery_port := d\<rparr>\<rparr>)
      \<and> node_id (sender request') = node_id (sender request)
      \<and> sender_request.more request' = sender_request.more request)
   \<and> (snd (GossipInterceptor_pre_request G self ''NewBlocks'' (NewBlocksRequest nb)) = Inr q' \<longrightarrow>
      (\<exists>h p d. q' = NewBlocksRequest (nb\<lparr>sender := (sender nb)
                              \<lparr>host := h, protocol_port := p, discovery_port := d\<rparr>\<rparr>))
      \<and> (\<exists>nb'. q' = NewBlocksRequest nb' \<and> node_id (sender nb') = node_id (sender nb)
                 \<and> block_hashes nb' = block_hashes nb))
   \<and> (name \<noteq> ''NewBlocks'' \<longrightarrow>
      snd (GossipInterceptor_pre_request G self name q) = Inr q)"
proof -
  have k: "snd (KademliaInterceptor_pre_request R self name request) = Inr request' \<longrightarrow>
      (\<exists>h p d. request' = request\<lparr>sender := (sender request)
                              \<lparr>host := h, protocol_port := p, discovery_port := d\<rparr>\<rparr>)
      \<and> node_id (sender request') = node_id (sender request)
      \<and> sender_request.more request' = sender_request.more request"
    by (auto simp add: KademliaInterceptor_pre_request_def lookup_node_def Let_def
        patch_address_def split: option.splits)
  have g: "snd (GossipInterceptor_pre_request G self ''NewBlocks'' (NewBlocksRequest nb)) = Inr q' \<longrightarrow>
      (\<exists>h p d. q' = NewBlocksRequest (nb\<lparr>sender := (sender nb)
                              \<lparr>host := h, protocol_port := p, discovery_port := d\<rparr>\<rparr>))
      \<and> (\<exists>nb'. q' = NewBlocksRequest nb' \<and> node_id (sender nb') = node_id (sender nb)
                 \<and> block_hashes nb' = block_hashes nb)"
    by (auto simp add: GossipInterceptor_pre_request_def lookup_node_def Let_def
        patch_address_def split: option.splits)
  have o: "name \<noteq> ''NewBlocks'' \<longrightarrow>
      snd (GossipInterceptor_pre_request G self name q) = Inr q"
    by (simp add: GossipInterceptor_pre_request_def)
  from k g o show ?thesis by blast
qed

theorem rewrite_frame_witness:
  "node_id (sender \<lparr>sender = \<lparr>node_id = [0x4c, 0x19], host = ''proxy-1'',
                              protocol_port = 40400, discovery_port = 40404\<rparr>\<rparr>)
     = node_id (sender \<lparr>sender = example_sender\<rparr>)
   \<and> (\<exists>nb'. NewBlocksRequest
               \<lparr>sender = \<lparr>node_id = [0x4c, 0x19], host = ''proxy-1'', protocol_port = 40400,
                           discovery_port = 40404\<rparr>,
                block_hashes = [[0x0f, 0x44]]\<rparr> = NewBlocksRequest nb'
            \<and> node_id (sender nb') = node_id (sender example_new_blocks)
            \<and> block_hashes nb' = block_hashes example_new_blocks)
   \<and> snd (GossipInterceptor_pre_request example_rendering example_node ''GetBlockChunked''
          (NewBlocksRequest example_new_blocks)) = Inr (NewBlocksRequest example_new_blocks)"
proof -
  let ?patched = "\<lparr>node_id = [0x4c, 0x19], host = ''proxy-1'', protocol_port = 40400,
                   discovery_port = 40404\<rparr>"
  have n: "''GetBlockChunked'' \<noteq> ''NewBlocks''" by simp
  note ping = rewrite_frame [where R = example_kademlia_rendering and self = example_node
      and name = "''Ping''" and request = "\<lparr>sender = example_sender\<rparr>"
      and request' = "\<lparr>sender = ?patched\<rparr>"
      and G = example_rendering and nb = example_new_blocks
      and q' = "NewBlocksRequest \<lparr>sender = ?patched, block_hashes = [[0x0f, 0x44]]\<rparr>"
      and q = "NewBlocksRequest example_new_blocks"]
  note other = rewrite_frame [where R = example_kademlia_rendering and self = example_node
      and name = "''GetBlockChunked''" and request = "\<lparr>sender = example_sender\<rparr>"
      and request' = "\<lparr>sender = ?patched\<rparr>"
      and G = example_rendering and nb = example_new_blocks
      and q' = "NewBlocksRequest \<lparr>sender = ?patched, block_hashes = [[0x0f, 0x44]]\<rparr>"
      and q = "NewBlocksRequest example_new_blocks"]
  from ping [THEN conjunct1, rule_format, OF example_pre_requests(1)]
  have a: "node_id (sender \<lparr>sender = ?patched\<rparr>) = node_id (sender \<lparr>sender = example_sender\<rparr>)"
    by blast
  from ping [THEN conjunct2, THEN conjunct1, rule_format, OF example_pre_requests(2)]
  have b: "\<exists>nb'. NewBlocksRequest \<lparr>sender = ?patched, block_hashes = [[0x0f, 0x44]]\<rparr>
                  = NewBlocksRequest nb'
            \<and> node_id (sender nb') = node_id (sender example_new_blocks)
            \<and> block_hashes nb' = block_hashes example_new_blocks"
    by blast
  from other [THEN conjunct2, THEN conjunct2, rule_format, OF n]
  have c: "snd (GossipInterceptor_pre_request example_rendering example_node ''GetBlockChunked''
          (NewBlocksRequest example_new_blocks)) = Inr (NewBlocksRequest example_new_blocks)" .
  from a b c show ?thesis by blast
qed

text \<open>
  C7. A method name is classified as server-streaming exactly when it starts with
  \<^verbatim>\<open>Stream\<close> or ends with \<^verbatim>\<open>Chunked\<close>; \<^verbatim>\<open>__getattr__\<close> answers such a name with
  the streaming handler and every other name with the unary handler. The streaming
  handler runs \<open>pre_request\<close>, invokes the upstream method on the preprocessed request
  and passes the response stream through \<open>post_request_stream\<close>; the unary handler runs
  \<open>pre_request\<close>, invokes upstream and passes the response through \<open>post_request\<close>; a
  failure of \<open>pre_request\<close> fails either handler.
\<close>

theorem dispatch_by_name:
  "(is_unary_stream name \<longleftrightarrow> prefix ''Stream'' name \<or> suffix ''Chunked'' name)
   \<and> getattr S name
       = (if prefix ''Stream'' name \<or> suffix ''Chunked'' name
          then UnaryStream (unary_stream S name) else UnaryUnary (unary_unary S name))
   \<and> (pre_request (interceptor S) name request = (lg, Inr request') \<longrightarrow>
        emitted (unary_stream S name request)
          = emitted (post_request_stream (interceptor S) name request'
                       (streaming_service_method S name request'))
        \<and> raised (unary_stream S name request)
          = raised (post_request_stream (interceptor S) name request'
                       (streaming_service_method S name request'))
        \<and> snd (unary_unary S name request)
          = (case service_method S name request' of
               Inl e \<Rightarrow> Inl e
             | Inr response \<Rightarrow> snd (post_request (interceptor S) name request' response)))
   \<and> (pre_request (interceptor S) name request = (lg, Inl e) \<longrightarrow>
        emitted (unary_stream S name request) = []
        \<and> raised (unary_stream S name request) = Some e
        \<and> snd (unary_unary S name request) = Inl e)"
proof -
  have c: "is_unary_stream name \<longleftrightarrow> prefix ''Stream'' name \<or> suffix ''Chunked'' name"
    by (simp only: is_unary_stream_def startswith_prefix endswith_suffix)
  then have d: "getattr S name
       = (if prefix ''Stream'' name \<or> suffix ''Chunked'' name
          then UnaryStream (unary_stream S name) else UnaryUnary (unary_unary S name))"
    by (simp only: getattr_def)
  have ok: "pre_request (interceptor S) name request = (lg, Inr request') \<longrightarrow>
        emitted (unary_stream S name request)
          = emitted (post_request_stream (interceptor S) name request'
                       (streaming_service_method S name request'))
        \<and> raised (unary_stream S name request)
          = raised (post_request_stream (interceptor S) name request'
                       (streaming_service_method S name request'))
        \<and> snd (unary_unary S name request)
          = (case service_method S name request' of
               Inl e \<Rightarrow> Inl e
             | Inr response \<Rightarrow> snd (post_request (interceptor S) name request' response))"
    by (simp add: unary_stream_def unary_unary_def Let_def split: sum.split prod.split)
  have fail: "pre_request (interceptor S) name request = (lg, Inl e) \<longrightarrow>
        emitted (unary_stream S name request) = []
        \<and> raised (unary_stream S name request) = Some e
        \<and> snd (unary_unary S name request) = Inl e"
    by (simp add: unary_stream_def unary_unary_def abort_def)
  from c d ok fail show ?thesis by blast
qed

theorem dispatch_by_name_witness:
  "getattr example_servicer ''GetBlockChunked''
     = UnaryStream (unary_stream example_servicer ''GetBlockChunked'')
   \<and> getattr example_servicer ''StreamBlockSummaries''
     = UnaryStream (unary_stream example_servicer ''StreamBlockSummaries'')
   \<and> getattr example_servicer ''NewBlocks''
     = UnaryUnary (unary_unary example_servicer ''NewBlocks'')
   \<and> snd (unary_unary example_servicer ''NewBlocks'' (OtherRequest ())) = Inl AttributeError
   \<and> snd (unary_unary example_servicer ''GetGenesisCandidate'' (OtherRequest ())) = Inr ()"
proof -
  have p: "suffix ''Chunked'' ''GetBlockChunked''" "prefix ''Stream'' ''StreamBlockSummaries''"
    "\<not> prefix ''Stream'' ''NewBlocks''" "\<not> suffix ''Chunked'' ''NewBlocks''"
    by (simp_all add: suffix_to_prefix)
  have pre1: "pre_request (interceptor example_servicer) ''NewBlocks'' (OtherRequest ())
      = ([''GOSSIP PRE REQUEST: <= NewBlocks(request)''], Inl AttributeError)"
    by (simp add: example_servicer_def GossipInterceptor_def GossipInterceptor_pre_request_def
        example_rendering_def)
  have pre2: "pre_request (interceptor example_servicer) ''GetGenesisCandidate'' (OtherRequest ())
      = ([''GOSSIP PRE REQUEST: <= GetGenesisCandidate(request)''], Inr (OtherRequest ()))"
    by (simp add: example_servicer_def GossipInterceptor_def GossipInterceptor_pre_request_def
        example_rendering_def)
  have post: "snd (post_request (interceptor example_servicer) ''GetGenesisCandidate''
                     (OtherRequest ()) ()) = Inr ()"
    "service_method example_servicer ''GetGenesisCandidate'' (OtherRequest ()) = Inr ()"
    by (simp_all add: example_servicer_def GossipInterceptor_def GossipInterceptor_post_request_def)
  from dispatch_by_name [where S = example_servicer and name = "''GetBlockChunked''"
        and request = "OtherRequest ()" and request' = "OtherRequest ()"] p
  have a: "getattr example_servicer ''GetBlockChunked''
     = UnaryStream (unary_stream example_servicer ''GetBlockChunked'')"
    by simp
  from dispatch_by_name [where S = example_servicer and name = "''StreamBlockSummaries''"
        and request = "OtherRequest ()" and request' = "OtherRequest ()"] p
  have b: "getattr example_servicer ''StreamBlockSummaries''
     = UnaryStream (unary_stream example_servicer ''StreamBlockSummaries'')"
    by simp
  from dispatch_by_name [where S = example_servicer and name = "''NewBlocks''"
        and request = "OtherRequest ()" and request' = "OtherRequest ()"
        and lg = "[''GOSSIP PRE REQUEST: <= NewBlocks(request)'']" and e = AttributeError] p pre1
  have c: "getattr example_servicer ''NewBlocks''
     = UnaryUnary (unary_unary example_servicer ''NewBlocks'')
     \<and> snd (unary_unary example_servicer ''NewBlocks'' (OtherRequest ())) = Inl AttributeError"
    by simp
  from dispatch_by_name [where S = example_servicer and name = "''GetGenesisCandidate''"
        and request = "OtherRequest ()" and request' = "OtherRequest ()"
        and lg = "[''GOSSIP PRE REQUEST: <= GetGenesisCandidate(request)'']"] pre2 post
  have d: "snd (unary_unary example_servicer ''GetGenesisCandidate'' (OtherRequest ())) = Inr ()"
    by simp
  from a b c d show ?thesis by simp
qed

end
